theory Spec2Isabelle
  imports Complex_Main
begin

section \<open>JavaScript values\<close>

text \<open>
  The handler of \<^verbatim>\<open>src/server/server.js\<close> works on values that come out of a JSON
  parser: the request body (parsed by \<^verbatim>\<open>express.json()\<close>) and the result of
  \<^verbatim>\<open>JSON.parse\<close> on the model's text. A value is \<^verbatim>\<open>undefined\<close> (a property that
  is absent), \<^verbatim>\<open>null\<close>, a boolean, a number, a string, an array or a plain object.
  An object is the list of its own properties in insertion order; a key occurs at most
  once in an object that a parser built.

  A string is a list of bytes (the UTF-8 form of the text). A number \<open>JNum v\<close> stands for
  the binary64 value nearest to the rational \<open>v\<close>, which is how a JSON number literal
  is read.
\<close>

datatype js_value =
    JUndefined
  | JNull
  | JBool bool
  | JNum rat
  | JStr string
  | JArr "js_value list"
  | JObj "(string \<times> js_value) list"

text \<open>An \<^verbatim>\<open>Error\<close> object, reduced to the two properties a handler can read.\<close>

record js_error =
  name :: string
  message :: string

definition TypeError :: "string \<Rightarrow> js_error" where
  "TypeError msg = \<lparr>name = ''TypeError'', message = msg\<rparr>"

definition SyntaxError :: "string \<Rightarrow> js_error" where
  "SyntaxError msg = \<lparr>name = ''SyntaxError'', message = msg\<rparr>"

text \<open>
  Two things the JavaScript engine decides and the repository does not: the decimal
  form of a number (\<^verbatim>\<open>Number.prototype.toString\<close>, the shortest digits that read back
  as the same binary64), and the wording of the \<^verbatim>\<open>SyntaxError\<close> that \<^verbatim>\<open>JSON.parse\<close>
  throws on a given text. Both are parameters of the model.
\<close>

record engine =
  NumberToString :: "rat \<Rightarrow> string"
  SyntaxErrorMessage :: "string \<Rightarrow> string"

subsection \<open>Truthiness: the operand of \<^verbatim>\<open>!\<close>\<close>

text \<open>
  \<^verbatim>\<open>!x\<close> is true for \<^verbatim>\<open>undefined\<close>, \<^verbatim>\<open>null\<close>, \<^verbatim>\<open>false\<close>, the number zero and the
  empty string, and false for every other value, arrays and objects included. A number
  literal reads as zero exactly when its value rounds to zero in binary64 (round to
  nearest, ties to even): when its magnitude is at most half the least subnormal,
  \<open>1 / 2 ^ 1075\<close>.
\<close>

definition number_is_zero :: "rat \<Rightarrow> bool" where
  "number_is_zero v = (\<bar>v\<bar> \<le> 1 / 2 ^ 1075)"

fun falsy :: "js_value \<Rightarrow> bool" where
  "falsy JUndefined = True"
| "falsy JNull = True"
| "falsy (JBool b) = (\<not> b)"
| "falsy (JNum v) = number_is_zero v"
| "falsy (JStr s) = (s = [])"
| "falsy (JArr xs) = False"
| "falsy (JObj kvs) = False"

subsection \<open>String conversion: a value inside a template literal\<close>

text \<open>
  \<^verbatim>\<open>`${x}`\<close> applies the abstract operation ToString to \<open>x\<close>.
  \<^item> A primitive has a fixed string form.
  \<^item> A plain object is converted by the first callable of its \<^verbatim>\<open>toString\<close> and
    \<^verbatim>\<open>valueOf\<close> that returns a primitive. An object built by a JSON parser inherits
    \<^verbatim>\<open>Object.prototype.toString\<close>, which gives \<^verbatim>\<open>[object Object]\<close>, unless it has an
    own property named \<^verbatim>\<open>toString\<close>: that property holds a JSON value, which is not
    callable, \<^verbatim>\<open>valueOf\<close> (own and not callable, or inherited and returning the object
    itself) yields no primitive either, and the conversion throws a \<^verbatim>\<open>TypeError\<close>.
  \<^item> An array is converted by \<^verbatim>\<open>Array.prototype.join\<close>: its elements' string forms
    separated by commas, where \<^verbatim>\<open>undefined\<close> and \<^verbatim>\<open>null\<close> elements give the empty
    string. The first element whose conversion throws ends the conversion.
\<close>

definition has_own_property :: "(string \<times> js_value) list \<Rightarrow> string \<Rightarrow> bool" where
  "has_own_property kvs k = (map_of kvs k \<noteq> None)"

definition own_property :: "(string \<times> js_value) list \<Rightarrow> string \<Rightarrow> js_value" where
  "own_property kvs k = (case map_of kvs k of None \<Rightarrow> JUndefined | Some v \<Rightarrow> v)"

fun ToString :: "engine \<Rightarrow> js_value \<Rightarrow> js_error + string"
  and join :: "engine \<Rightarrow> js_value list \<Rightarrow> js_error + string"
where
  "ToString eng JUndefined = Inr ''undefined''"
| "ToString eng JNull = Inr ''null''"
| "ToString eng (JBool b) = Inr (if b then ''true'' else ''false'')"
| "ToString eng (JNum v) = Inr (NumberToString eng v)"
| "ToString eng (JStr s) = Inr s"
| "ToString eng (JObj kvs) =
     (if has_own_property kvs ''toString''
      then Inl (TypeError ''Cannot convert object to primitive value'')
      else Inr ''[object Object]'')"
| "ToString eng (JArr xs) = join eng xs"
| "join eng [] = Inr []"
| "join eng (x # xs) =
     (case (if x = JUndefined \<or> x = JNull then Inr [] else ToString eng x) of
        Inl e \<Rightarrow> Inl e
      | Inr s \<Rightarrow>
          (if xs = [] then Inr s
           else (case join eng xs of
                   Inl e \<Rightarrow> Inl e
                 | Inr t \<Rightarrow> Inr (s @ '','' @ t))))"

section \<open>\<^verbatim>\<open>JSON.parse\<close>\<close>

text \<open>
  The handler calls \<^verbatim>\<open>JSON.parse(jsonString)\<close> on the model's text. The function below
  reads the JSON grammar of ECMA-404 in two passes: the text becomes a list of tokens,
  and a pushdown automaton builds the value from the tokens. \<open>None\<close> stands for the
  \<^verbatim>\<open>SyntaxError\<close> that \<^verbatim>\<open>JSON.parse\<close> throws.
\<close>

subsection \<open>Tokens\<close>

definition is_ws :: "char \<Rightarrow> bool" where
  "is_ws c = (c = CHR 0x20 \<or> c = CHR 0x09 \<or> c = CHR 0x0A \<or> c = CHR 0x0D)"

definition is_digit :: "char \<Rightarrow> bool" where
  "is_digit c = (48 \<le> (of_char c :: nat) \<and> (of_char c :: nat) \<le> 57)"

definition digits_value :: "string \<Rightarrow> nat" where
  "digits_value ds = foldl (\<lambda>n c. 10 * n + (of_char c - 48)) 0 ds"

definition hex_value :: "char \<Rightarrow> nat option" where
  "hex_value c =
     (let n = (of_char c :: nat) in
      if 48 \<le> n \<and> n \<le> 57 then Some (n - 48)
      else if 65 \<le> n \<and> n \<le> 70 then Some (n - 55)
      else if 97 \<le> n \<and> n \<le> 102 then Some (n - 87)
      else None)"

definition hex4 :: "char \<Rightarrow> char \<Rightarrow> char \<Rightarrow> char \<Rightarrow> nat option" where
  "hex4 a b c d =
     (case (hex_value a, hex_value b, hex_value c, hex_value d) of
        (Some h3, Some h2, Some h1, Some h0) \<Rightarrow> Some (((h3 * 16 + h2) * 16 + h1) * 16 + h0)
      | _ \<Rightarrow> None)"

definition simple_escape :: "char \<Rightarrow> char option" where
  "simple_escape e =
     (if e = CHR 0x22 then Some (CHR 0x22)
      else if e = CHR 0x5C then Some (CHR 0x5C)
      else if e = CHR ''/'' then Some (CHR ''/'')
      else if e = CHR ''b'' then Some (CHR 0x08)
      else if e = CHR ''f'' then Some (CHR 0x0C)
      else if e = CHR ''n'' then Some (CHR 0x0A)
      else if e = CHR ''r'' then Some (CHR 0x0D)
      else if e = CHR ''t'' then Some (CHR 0x09)
      else None)"

text \<open>
  The body of a string literal, read from just after the opening quote up to the
  closing one. A character of the text is kept as it is; \<^verbatim>\<open>\uXXXX\<close> gives a UTF-16 code
  unit, which \<open>encode\<close> turns into UTF-8 bytes, a surrogate pair into one code point.
  A control character below U+0020 and an unknown escape are syntax errors.
\<close>

datatype string_item = Byte char | CodeUnit nat

fun lex_string :: "string \<Rightarrow> (string_item list \<times> string) option" where
  "lex_string [] = None"
| "lex_string (c # cs) =
     (if c = CHR 0x22 then Some ([], cs)
      else if c = CHR 0x5C then
        (case cs of
           [] \<Rightarrow> None
         | e # r \<Rightarrow>
             (if e = CHR ''u'' then
                (case r of
                   h3 # h2 # h1 # h0 # r' \<Rightarrow>
                     (case hex4 h3 h2 h1 h0 of
                        None \<Rightarrow> None
                      | Some n \<Rightarrow> map_option (\<lambda>(s, rest). (CodeUnit n # s, rest)) (lex_string r'))
                 | _ \<Rightarrow> None)
              else
                (case simple_escape e of
                   None \<Rightarrow> None
                 | Some ch \<Rightarrow> map_option (\<lambda>(s, rest). (Byte ch # s, rest)) (lex_string r))))
      else if (of_char c :: nat) < 0x20 then None
      else map_option (\<lambda>(s, rest). (Byte c # s, rest)) (lex_string cs))"

definition utf8 :: "nat \<Rightarrow> string" where
  "utf8 n =
     (if n < 0x80 then [char_of n]
      else if n < 0x800 then [char_of (0xC0 + n div 0x40), char_of (0x80 + n mod 0x40)]
      else if n < 0x10000 then
        [char_of (0xE0 + n div 0x1000), char_of (0x80 + n div 0x40 mod 0x40),
         char_of (0x80 + n mod 0x40)]
      else
        [char_of (0xF0 + n div 0x40000), char_of (0x80 + n div 0x1000 mod 0x40),
         char_of (0x80 + n div 0x40 mod 0x40), char_of (0x80 + n mod 0x40)])"

fun encode :: "string_item list \<Rightarrow> string" where
  "encode [] = []"
| "encode (Byte c # xs) = c # encode xs"
| "encode (CodeUnit h # CodeUnit l # xs) =
     (if 0xD800 \<le> h \<and> h < 0xDC00 \<and> 0xDC00 \<le> l \<and> l < 0xE000
      then utf8 (0x10000 + (h - 0xD800) * 0x400 + (l - 0xDC00)) @ encode xs
      else utf8 h @ encode (CodeUnit l # xs))"
| "encode (CodeUnit n # xs) = utf8 n @ encode xs"

text \<open>
  A number literal: an optional minus sign, an integer part without a leading zero, an
  optional fraction and an optional exponent. Its value is kept exactly.
\<close>

definition lex_sign :: "string \<Rightarrow> bool \<times> string" where
  "lex_sign cs =
     (case cs of
        [] \<Rightarrow> (False, cs)
      | c # r \<Rightarrow> if c = CHR ''-'' then (True, r) else (False, cs))"

definition lex_int :: "string \<Rightarrow> (nat \<times> string) option" where
  "lex_int cs =
     (case cs of
        [] \<Rightarrow> None
      | c # r \<Rightarrow>
          if c = CHR ''0'' then Some (0, r)
          else if is_digit c then Some (digits_value (takeWhile is_digit cs), dropWhile is_digit cs)
          else None)"

definition lex_frac :: "string \<Rightarrow> (rat \<times> string) option" where
  "lex_frac cs =
     (case cs of
        [] \<Rightarrow> Some (0, cs)
      | c # r \<Rightarrow>
          if c = CHR ''.'' then
            (let ds = takeWhile is_digit r in
             if ds = [] then None
             else Some (of_nat (digits_value ds) / 10 ^ length ds, dropWhile is_digit r))
          else Some (0, cs))"

definition lex_exp :: "string \<Rightarrow> (int \<times> string) option" where
  "lex_exp cs =
     (case cs of
        [] \<Rightarrow> Some (0, cs)
      | c # r \<Rightarrow>
          if c = CHR ''e'' \<or> c = CHR ''E'' then
            (let (neg, r') =
                   (case r of
                      [] \<Rightarrow> (False, r)
                    | s # t \<Rightarrow>
                        if s = CHR ''-'' then (True, t)
                        else if s = CHR ''+'' then (False, t)
                        else (False, r));
                 ds = takeWhile is_digit r' in
             if ds = [] then None
             else Some (if neg then - int (digits_value ds) else int (digits_value ds),
                        dropWhile is_digit r'))
          else Some (0, cs))"

definition scale :: "rat \<Rightarrow> int \<Rightarrow> rat" where
  "scale m e = (if 0 \<le> e then m * 10 ^ nat e else m / 10 ^ nat (- e))"

definition lex_number :: "string \<Rightarrow> (rat \<times> string) option" where
  "lex_number cs =
     (let (neg, r0) = lex_sign cs in
      case lex_int r0 of
        None \<Rightarrow> None
      | Some (i, r1) \<Rightarrow>
          (case lex_frac r1 of
             None \<Rightarrow> None
           | Some (f, r2) \<Rightarrow>
               (case lex_exp r2 of
                  None \<Rightarrow> None
                | Some (e, r3) \<Rightarrow>
                    Some (scale (if neg then - (of_nat i + f) else of_nat i + f) e, r3))))"

datatype token =
    LBrace | RBrace | LBracket | RBracket | Colon | Comma
  | TStr string | TNum rat | TTrue | TFalse | TNull

text \<open>Each literal consumes at least one character, so the tokenizer terminates.\<close>

lemma lex_string_shorter: "lex_string cs = Some (s, rest) \<Longrightarrow> length rest < length cs"
proof (induction cs arbitrary: s rule: lex_string.induct)
  case 1
  then show ?case by simp
next
  case (2 c cs)
  then show ?case
    by (fastforce split: if_splits list.splits option.splits)
qed

lemma lex_int_shorter: "lex_int cs = Some (i, rest) \<Longrightarrow> length rest < length cs"
  by (auto simp: lex_int_def less_Suc_eq_le length_dropWhile_le split: list.splits if_splits)

lemma lex_frac_shorter: "lex_frac cs = Some (f, rest) \<Longrightarrow> length rest \<le> length cs"
  by (auto simp: lex_frac_def Let_def le_SucI length_dropWhile_le split: list.splits if_splits)

lemma lex_exp_shorter: "lex_exp cs = Some (e, rest) \<Longrightarrow> length rest \<le> length cs"
  by (auto simp: lex_exp_def Let_def le_SucI length_dropWhile_le
      intro: le_trans [OF length_dropWhile_le]
      split: list.splits if_splits prod.splits)

lemma lex_sign_shorter: "lex_sign cs = (neg, rest) \<Longrightarrow> length rest \<le> length cs"
  by (auto simp: lex_sign_def split: list.splits if_splits)

lemma lex_number_shorter:
  assumes "lex_number cs = Some (v, rest)"
  shows "length rest < length cs"
proof -
  obtain neg r0 where s: "lex_sign cs = (neg, r0)"
    by (cases "lex_sign cs")
  from assms s obtain i r1 f r2 e where
    i: "lex_int r0 = Some (i, r1)" and f: "lex_frac r1 = Some (f, r2)"
    and e: "lex_exp r2 = Some (e, rest)"
    by (auto simp: lex_number_def split: option.splits)
  from lex_sign_shorter [OF s] lex_int_shorter [OF i] lex_frac_shorter [OF f]
    lex_exp_shorter [OF e]
  show ?thesis by linarith
qed

function tokenize :: "string \<Rightarrow> token list option" where
  "tokenize [] = Some []"
| "tokenize (c # cs) =
     (if is_ws c then tokenize cs
      else if c = CHR ''{'' then map_option (Cons LBrace) (tokenize cs)
      else if c = CHR ''}'' then map_option (Cons RBrace) (tokenize cs)
      else if c = CHR ''['' then map_option (Cons LBracket) (tokenize cs)
      else if c = CHR '']'' then map_option (Cons RBracket) (tokenize cs)
      else if c = CHR '':'' then map_option (Cons Colon) (tokenize cs)
      else if c = CHR '','' then map_option (Cons Comma) (tokenize cs)
      else if c = CHR 0x22 then
        (case lex_string cs of
           None \<Rightarrow> None
         | Some (s, rest) \<Rightarrow> map_option (Cons (TStr (encode s))) (tokenize rest))
      else if c = CHR ''-'' \<or> is_digit c then
        (case lex_number (c # cs) of
           None \<Rightarrow> None
         | Some (v, rest) \<Rightarrow> map_option (Cons (TNum v)) (tokenize rest))
      else if take 4 (c # cs) = ''true'' then map_option (Cons TTrue) (tokenize (drop 3 cs))
      else if take 5 (c # cs) = ''false'' then map_option (Cons TFalse) (tokenize (drop 4 cs))
      else if take 4 (c # cs) = ''null'' then map_option (Cons TNull) (tokenize (drop 3 cs))
      else None)"
  by pat_completeness auto
termination
proof (relation "measure length", goal_cases)
  case 1
  show ?case by simp
next
  case (9 c cs x2 s rest)
  then show ?case using lex_string_shorter [of cs s rest] by simp
next
  case (10 c cs x2 v rest)
  then show ?case using lex_number_shorter [of "c # cs" v rest] by simp
qed simp_all

subsection \<open>Values\<close>

text \<open>
  A repeated key keeps its first position and takes the last value, as a property
  assignment does.
\<close>

fun set_property ::
  "(string \<times> js_value) list \<Rightarrow> string \<Rightarrow> js_value \<Rightarrow> (string \<times> js_value) list" where
  "set_property [] k v = [(k, v)]"
| "set_property ((k', v') # kvs) k v =
     (if k' = k then (k, v) # kvs else (k', v') # set_property kvs k v)"

text \<open>
  The automaton's stack holds the arrays and objects that are still open: the elements
  read so far, and for an object also the key whose value is being read.
\<close>

datatype frame =
    InArray "js_value list"
  | InObject "(string \<times> js_value) list" string

datatype parser_state =
    Want_value "frame list"
  | Want_value_or_close "frame list"
  | Want_key_or_close "frame list"
  | Want_key "(string \<times> js_value) list" "frame list"
  | Want_colon "(string \<times> js_value) list" string "frame list"
  | Have_value js_value "frame list"

fun start_value :: "frame list \<Rightarrow> token \<Rightarrow> parser_state option" where
  "start_value st LBracket = Some (Want_value_or_close st)"
| "start_value st LBrace = Some (Want_key_or_close st)"
| "start_value st (TStr s) = Some (Have_value (JStr s) st)"
| "start_value st (TNum v) = Some (Have_value (JNum v) st)"
| "start_value st TTrue = Some (Have_value (JBool True) st)"
| "start_value st TFalse = Some (Have_value (JBool False) st)"
| "start_value st TNull = Some (Have_value JNull st)"
| "start_value st _ = None"

fun step :: "parser_state \<Rightarrow> token \<Rightarrow> parser_state option" where
  "step (Want_value st) t = start_value st t"
| "step (Want_value_or_close st) t =
     (if t = RBracket then Some (Have_value (JArr []) st)
      else start_value (InArray [] # st) t)"
| "step (Want_key_or_close st) t =
     (case t of
        RBrace \<Rightarrow> Some (Have_value (JObj []) st)
      | TStr k \<Rightarrow> Some (Want_colon [] k st)
      | _ \<Rightarrow> None)"
| "step (Want_key kvs st) t =
     (case t of TStr k \<Rightarrow> Some (Want_colon kvs k st) | _ \<Rightarrow> None)"
| "step (Want_colon kvs k st) t =
     (if t = Colon then Some (Want_value (InObject kvs k # st)) else None)"
| "step (Have_value v []) t = None"
| "step (Have_value v (InArray xs # st)) t =
     (if t = Comma then Some (Want_value (InArray (xs @ [v]) # st))
      else if t = RBracket then Some (Have_value (JArr (xs @ [v])) st)
      else None)"
| "step (Have_value v (InObject kvs k # st)) t =
     (if t = Comma then Some (Want_key (set_property kvs k v) st)
      else if t = RBrace then Some (Have_value (JObj (set_property kvs k v)) st)
      else None)"

fun run :: "parser_state \<Rightarrow> token list \<Rightarrow> js_value option" where
  "run (Have_value v []) [] = Some v"
| "run s [] = None"
| "run s (t # ts) = (case step s t of None \<Rightarrow> None | Some s' \<Rightarrow> run s' ts)"

definition JSON_parse :: "string \<Rightarrow> js_value option" where
  "JSON_parse text =
     (case tokenize text of None \<Rightarrow> None | Some ts \<Rightarrow> run (Want_value []) ts)"

section \<open>The generation capability\<close>

text \<open>
  \<^verbatim>\<open>client.models.generateContent\<close> belongs to the \<^verbatim>\<open>@google/genai\<close> package. The
  handler passes it one object and awaits a promise, which either rejects with an
  error or resolves to a response. The records below hold the fields the handler writes
  and reads; a field that may be absent is an \<open>option\<close>. The field \<^verbatim>\<open>text\<close> of a part
  is \<open>part_text\<close> here.
\<close>

subsection \<open>The response schema (lines 29-54)\<close>

text \<open>
  A schema object of the API: its \<^verbatim>\<open>type\<close>, \<^verbatim>\<open>description\<close>, \<^verbatim>\<open>properties\<close>, \<^verbatim>\<open>items\<close>
  and \<^verbatim>\<open>required\<close>, in this order, followed by the two bounds on an array's length that
  the API's schema language offers (\<^verbatim>\<open>minItems\<close>, \<^verbatim>\<open>maxItems\<close>). A field the source
  does not write is absent (\<open>None\<close>, or the empty list).
\<close>

datatype schema_type = OBJECT | STRING | ARRAY

datatype Schema =
  Schema
    (schema_type: schema_type)
    (description: "string option")
    (properties: "(string \<times> Schema) list")
    (items: "Schema option")
    (required: "string list")
    (minItems: "nat option")
    (maxItems: "nat option")

text \<open>The source writes an en dash (U+2013) in three descriptions; here its UTF-8 bytes.\<close>

definition en_dash :: string where
  "en_dash = [CHR 0xE2, CHR 0x80, CHR 0x93]"

definition treatmentSchema :: Schema where
  "treatmentSchema =
     Schema OBJECT None
       [(''organic'',
           Schema STRING (Some (''Organic treatment methods (1'' @ en_dash @ ''2 sentences).''))
             [] None [] None None),
        (''biological'',
           Schema STRING (Some (''Biological control methods (1'' @ en_dash @ ''2 sentences).''))
             [] None [] None None),
        (''chemical'',
           Schema STRING (Some (''Chemical treatment methods (1'' @ en_dash @ ''2 sentences).''))
             [] None [] None None),
        (''prevention'',
           Schema ARRAY (Some ''A list of five distinct prevention measures.'')
             [] (Some (Schema STRING None [] None [] None None)) [] None None)]
       None
       [''organic'', ''biological'', ''chemical'', ''prevention'']
       None None"

text \<open>
  What a schema asks of a value, as the API documents its schema language (a subset of
  OpenAPI 3.0): a string for \<^verbatim>\<open>STRING\<close>; for \<^verbatim>\<open>ARRAY\<close> an array whose length is within
  the bounds that are present and whose elements satisfy \<^verbatim>\<open>items\<close>; for \<^verbatim>\<open>OBJECT\<close> an
  object that has every \<^verbatim>\<open>required\<close> key and whose properties satisfy the schemas
  given for their keys. A \<^verbatim>\<open>description\<close> constrains nothing.
\<close>

definition within_bounds :: "nat option \<Rightarrow> nat option \<Rightarrow> nat \<Rightarrow> bool" where
  "within_bounds lo hi n =
     ((case lo of None \<Rightarrow> True | Some l \<Rightarrow> l \<le> n) \<and> (case hi of None \<Rightarrow> True | Some h \<Rightarrow> n \<le> h))"

fun conforms :: "Schema \<Rightarrow> js_value \<Rightarrow> bool" where
  "conforms s (JStr x) = (schema_type s = STRING)"
| "conforms s (JArr xs) =
     (schema_type s = ARRAY \<and> within_bounds (minItems s) (maxItems s) (length xs) \<and>
      (case items s of None \<Rightarrow> True | Some s' \<Rightarrow> list_all (conforms s') xs))"
| "conforms s (JObj kvs) =
     (schema_type s = OBJECT \<and> list_all (has_own_property kvs) (required s) \<and>
      list_all
        (\<lambda>kv. case map_of (properties s) (fst kv) of
                 None \<Rightarrow> True
               | Some s' \<Rightarrow> conforms s' (snd kv))
        kvs)"
| "conforms s v = False"

subsection \<open>The request (lines 69-77)\<close>

record GenerationConfig =
  temperature :: rat
  responseMimeType :: string
  responseSchema :: Schema

record GenerateContentParameters =
  model :: string
  contents :: string
  config :: GenerationConfig

subsection \<open>The response (lines 79-83)\<close>

record SafetyRating =
  blocked :: "bool option"

record Part =
  part_text :: "string option"

record Content =
  parts :: "Part list option"

record Candidate =
  content :: "Content option"
  safetyRatings :: "SafetyRating list option"

record GenerateContentResponse =
  candidates :: "Candidate list option"

text \<open>
  How the awaited promise settles. The handler sets no timeout: a promise that never
  settles leaves the run suspended at line 69, and the model describes the runs whose
  promise settles.
\<close>

datatype settled = Resolved GenerateContentResponse | Rejected js_error

text \<open>
  \<^verbatim>\<open>xs?.[0]\<close>: \<^verbatim>\<open>undefined\<close> when \<open>xs\<close> is absent or empty, the first element otherwise.
  \<^verbatim>\<open>x?.f\<close> is \<open>Option.bind x f\<close>.
\<close>

definition index0 :: "'a list option \<Rightarrow> 'a option" where
  "index0 xs = (case xs of None \<Rightarrow> None | Some [] \<Rightarrow> None | Some (x # _) \<Rightarrow> Some x)"

section \<open>The handler of \<^verbatim>\<open>POST /api/treatment\<close> (lines 57-104)\<close>

text \<open>
  One run of the handler is described by what it leaves behind: the calls it made to
  \<^verbatim>\<open>generateContent\<close>, the lines it wrote to the console, the responses it sent, and
  the error it threw past its own \<^verbatim>\<open>try\<close>/\<^verbatim>\<open>catch\<close>, if any (the \<^verbatim>\<open>async\<close> function's
  promise then rejects, and the handler sends nothing).
\<close>

record http_response =
  status :: nat
  body :: js_value

datatype console_line = console_log "string list" | console_error "string list"

record outcome =
  calls :: "GenerateContentParameters list"
  console :: "console_line list"
  sent :: "http_response list"
  uncaught :: "js_error option"

text \<open>
  \<^verbatim>\<open>const { disease } = req.body\<close> (line 58) throws when the body is \<^verbatim>\<open>undefined\<close> or
  \<^verbatim>\<open>null\<close>; \<^verbatim>\<open>req.body\<close> is \<^verbatim>\<open>undefined\<close> when the middleware of line 18 parsed
  nothing and left it unset. Otherwise it reads the property \<^verbatim>\<open>disease\<close>, which no prototype defines: an
  object gives its own property, every other value gives \<^verbatim>\<open>undefined\<close>.
\<close>

definition destructure_disease :: "js_value \<Rightarrow> js_error + js_value" where
  "destructure_disease req_body =
     (case req_body of
        JUndefined \<Rightarrow> Inl (TypeError ''Cannot destructure property 'disease' of 'req.body' as it is undefined.'')
      | JNull \<Rightarrow> Inl (TypeError ''Cannot destructure property 'disease' of 'req.body' as it is null.'')
      | JObj kvs \<Rightarrow> Inr (own_property kvs ''disease'')
      | _ \<Rightarrow> Inr JUndefined)"

text \<open>The template literal of lines 64-66, with the string form of \<^verbatim>\<open>disease\<close> in it.\<close>

definition prompt :: "string \<Rightarrow> string" where
  \<open>prompt s =
     [CHR 0x0A] @
     ''    You are a professional plant pathologist AI. Provide the comprehensive treatment and prevention information for the plant disease "'' @
     s @ ''".'' @ [CHR 0x0A] @ ''  ''\<close>

definition generation_request :: "string \<Rightarrow> GenerateContentParameters" where
  "generation_request p =
     \<lparr>model = ''gemini-2.5-flash'',
      contents = p,
      config = \<lparr>temperature = 3 / 10,
                responseMimeType = ''application/json'',
                responseSchema = treatmentSchema\<rparr>\<rparr>"

text \<open>Lines 79-80 and the condition of line 83.\<close>

definition first_candidate :: "GenerateContentResponse \<Rightarrow> Candidate option" where
  "first_candidate response = index0 (candidates response)"

definition first_text :: "Candidate option \<Rightarrow> string option" where
  "first_text candidate =
     Option.bind (index0 (Option.bind (Option.bind candidate content) parts)) part_text"

definition first_rating_blocked :: "Candidate option \<Rightarrow> bool" where
  "first_rating_blocked candidate =
     (Option.bind (index0 (Option.bind candidate safetyRatings)) blocked = Some True)"

text \<open>Lines 82-86: the response the handler sends when \<^verbatim>\<open>!jsonString\<close> holds.\<close>

definition no_text :: "GenerateContentParameters \<Rightarrow> Candidate option \<Rightarrow> outcome" where
  "no_text request candidate =
     (let blockReason =
            (if first_rating_blocked candidate then ''Response blocked by safety settings.''
             else ''Empty response or no text part found.'')
      in \<lparr>calls = [request],
          console = [console_error [''Gemini API Error:'', blockReason]],
          sent = [\<lparr>status = 500,
                   body = JObj [(''error'', JStr ''Failed to generate treatment data.''),
                                (''details'', JStr blockReason)]\<rparr>],
          uncaught = None\<rparr>)"

text \<open>Lines 89-95: the log line and the response after \<^verbatim>\<open>JSON.parse\<close> has returned.\<close>

definition success ::
  "GenerateContentParameters \<Rightarrow> js_value \<Rightarrow> string \<Rightarrow> js_value \<Rightarrow> outcome" where
  \<open>success request disease s data =
     \<lparr>calls = [request],
      console = [console_log [''Successfully generated structured data for "'' @ s @ ''"'']],
      sent = [\<lparr>status = 200, body = JObj [(''disease'', disease), (''data'', data)]\<rparr>],
      uncaught = None\<rparr>\<close>

text \<open>
  Lines 69-95, the body of \<^verbatim>\<open>try\<close>, from the settled promise on: \<open>Inl\<close> is an error
  thrown inside the block, \<open>Inr\<close> a run that reached a response. The template literal
  of line 92 converts \<^verbatim>\<open>disease\<close> to a string a second time.
\<close>

definition try_block ::
  "engine \<Rightarrow> js_value \<Rightarrow> GenerateContentParameters \<Rightarrow> settled \<Rightarrow> js_error + outcome" where
  "try_block eng disease request result =
     (case result of
        Rejected e \<Rightarrow> Inl e
      | Resolved response \<Rightarrow>
          (let candidate = first_candidate response;
               jsonString = first_text candidate
           in case jsonString of
                None \<Rightarrow> Inr (no_text request candidate)
              | Some t \<Rightarrow>
                  if t = [] then Inr (no_text request candidate)
                  else
                    (case JSON_parse t of
                       None \<Rightarrow> Inl (SyntaxError (SyntaxErrorMessage eng t))
                     | Some data \<Rightarrow>
                         (case ToString eng disease of
                            Inl e \<Rightarrow> Inl e
                          | Inr s \<Rightarrow> Inr (success request disease s data)))))"

text \<open>Lines 97-103, the \<^verbatim>\<open>catch\<close> block.\<close>

definition catch_block :: "GenerateContentParameters \<Rightarrow> js_error \<Rightarrow> outcome" where
  "catch_block request error =
     \<lparr>calls = [request],
      console = [console_error [''Gemini API Internal Error:'', message error]],
      sent = [\<lparr>status = 500,
               body = JObj [(''error'', JStr ''Failed to process request due to an internal API error.''),
                            (''details'', JStr (message error))]\<rparr>],
      uncaught = None\<rparr>"

text \<open>
  The handler. The destructuring, the check of line 60 and the template literal of
  lines 64-66 stand before \<^verbatim>\<open>try\<close>: an error there is not caught.
\<close>

definition handler ::
  "engine \<Rightarrow> (GenerateContentParameters \<Rightarrow> settled) \<Rightarrow> js_value \<Rightarrow> outcome" where
  "handler eng generateContent req_body =
     (case destructure_disease req_body of
        Inl e \<Rightarrow> \<lparr>calls = [], console = [], sent = [], uncaught = Some e\<rparr>
      | Inr disease \<Rightarrow>
          if falsy disease then
            \<lparr>calls = [], console = [],
             sent = [\<lparr>status = 400,
                      body = JObj [(''error'', JStr ''Disease name is required.'')]\<rparr>],
             uncaught = None\<rparr>
          else
            (case ToString eng disease of
               Inl e \<Rightarrow> \<lparr>calls = [], console = [], sent = [], uncaught = Some e\<rparr>
             | Inr s \<Rightarrow>
                 (let request = generation_request (prompt s)
                  in case try_block eng disease request (generateContent request) of
                       Inr out \<Rightarrow> out
                     | Inl error \<Rightarrow> catch_block request error)))"

section \<open>What the specification says of a result\<close>

text \<open>
  \<open>field v k\<close> reads a key of a response body or of the parsed data. A TreatmentResult,
  as section 3 of the specification describes it, has the three texts \<^verbatim>\<open>organic\<close>,
  \<^verbatim>\<open>biological\<close> and \<^verbatim>\<open>chemical\<close> and a \<^verbatim>\<open>prevention\<close> array of exactly five strings.
\<close>

definition field :: "js_value \<Rightarrow> string \<Rightarrow> js_value" where
  "field v k = (case v of JObj kvs \<Rightarrow> own_property kvs k | _ \<Rightarrow> JUndefined)"

definition is_string :: "js_value \<Rightarrow> bool" where
  "is_string v = (case v of JStr s \<Rightarrow> True | _ \<Rightarrow> False)"

definition is_TreatmentResult :: "js_value \<Rightarrow> bool" where
  "is_TreatmentResult v =
     (is_string (field v ''organic'') \<and> is_string (field v ''biological'') \<and>
      is_string (field v ''chemical'') \<and>
      (case field v ''prevention'' of
         JArr p \<Rightarrow> length p = 5 \<and> list_all is_string p
       | _ \<Rightarrow> False))"

definition five_distinct_strings :: "js_value \<Rightarrow> bool" where
  "five_distinct_strings v =
     (case v of JArr p \<Rightarrow> length p = 5 \<and> distinct p \<and> list_all is_string p | _ \<Rightarrow> False)"

text \<open>
  Safety-block metadata on a candidate: one of its safety ratings says that it blocked
  the content.
\<close>

definition safety_block_present :: "Candidate option \<Rightarrow> bool" where
  "safety_block_present candidate =
     (case Option.bind candidate safetyRatings of
        None \<Rightarrow> False
      | Some ratings \<Rightarrow> list_ex (\<lambda>rating. blocked rating = Some True) ratings)"

section \<open>JSON values and their tokens\<close>

text \<open>
  A JSON value is a value without \<^verbatim>\<open>undefined\<close> in which no object repeats a key;
  \<open>tokens_of\<close> writes one as tokens. The two relate the automaton of \<open>JSON_parse\<close> to
  the grammar: what it returns is a JSON value, and it reads every JSON value back from
  its tokens (lemmas \<open>JSON_parse_is_json\<close> and \<open>run_reads_back\<close> below).
\<close>

fun is_json :: "js_value \<Rightarrow> bool" where
  "is_json JUndefined = False"
| "is_json (JArr xs) = list_all is_json xs"
| "is_json (JObj kvs) = (distinct (map fst kvs) \<and> list_all (\<lambda>kv. is_json (snd kv)) kvs)"
| "is_json v = True"

fun tokens_of :: "js_value \<Rightarrow> token list"
  and elements :: "js_value list \<Rightarrow> token list"
  and members :: "(string \<times> js_value) list \<Rightarrow> token list"
where
  "tokens_of JUndefined = []"
| "tokens_of JNull = [TNull]"
| "tokens_of (JBool b) = [if b then TTrue else TFalse]"
| "tokens_of (JNum v) = [TNum v]"
| "tokens_of (JStr s) = [TStr s]"
| "tokens_of (JArr xs) = LBracket # elements xs @ [RBracket]"
| "tokens_of (JObj kvs) = LBrace # members kvs @ [RBrace]"
| "elements [] = []"
| "elements (x # xs) = tokens_of x @ (if xs = [] then [] else Comma # elements xs)"
| "members [] = []"
| "members ((k, v) # kvs) =
     TStr k # Colon # tokens_of v @ (if kvs = [] then [] else Comma # members kvs)"

text \<open>The invariant of the automaton: everything it holds is a JSON value.\<close>

fun frame_ok :: "frame \<Rightarrow> bool" where
  "frame_ok (InArray xs) = list_all is_json xs"
| "frame_ok (InObject kvs k) = is_json (JObj kvs)"

fun state_ok :: "parser_state \<Rightarrow> bool" where
  "state_ok (Want_value st) = list_all frame_ok st"
| "state_ok (Want_value_or_close st) = list_all frame_ok st"
| "state_ok (Want_key_or_close st) = list_all frame_ok st"
| "state_ok (Want_key kvs st) = (is_json (JObj kvs) \<and> list_all frame_ok st)"
| "state_ok (Want_colon kvs k st) = (is_json (JObj kvs) \<and> list_all frame_ok st)"
| "state_ok (Have_value v st) = (is_json v \<and> list_all frame_ok st)"

text \<open>
  The values that have a string form: an object does unless it has an own \<^verbatim>\<open>toString\<close>,
  an array does when all its elements do, every primitive does.
\<close>

fun convertible :: "js_value \<Rightarrow> bool" where
  "convertible (JObj kvs) = (\<not> has_own_property kvs ''toString'')"
| "convertible (JArr xs) = list_all convertible xs"
| "convertible v = True"

section \<open>Concrete requests and responses\<close>

text \<open>
  An engine for the examples: it prints the integer part of a number in decimal, which
  is what JavaScript prints for the integers the examples use.
\<close>

fun decimal :: "nat \<Rightarrow> string" where
  "decimal n =
     (if n < 10 then [char_of (48 + n)] else decimal (n div 10) @ [char_of (48 + n mod 10)])"

definition example_engine :: engine where
  "example_engine =
     \<lparr>NumberToString =
        (\<lambda>v. if v < 0 then ''-'' @ decimal (nat \<lfloor>- v\<rfloor>) else decimal (nat \<lfloor>v\<rfloor>)),
      SyntaxErrorMessage = (\<lambda>t. ''Unexpected token'')\<rparr>"

definition powdery_mildew :: js_value where
  "powdery_mildew = JObj [(''disease'', JStr ''Powdery Mildew'')]"

definition toString_object :: js_value where
  "toString_object = JObj [(''disease'', JObj [(''toString'', JNum 1)])]"

definition failing_network :: "GenerateContentParameters \<Rightarrow> settled" where
  "failing_network request = Rejected \<lparr>name = ''TypeError'', message = ''fetch failed''\<rparr>"

definition text_response :: "string \<Rightarrow> GenerateContentResponse" where
  "text_response t =
     \<lparr>candidates = Some [\<lparr>content = Some \<lparr>parts = Some [\<lparr>part_text = Some t\<rparr>]\<rparr>,
                          safetyRatings = None\<rparr>]\<rparr>"

definition blocked_by_second_rating :: GenerateContentResponse where
  "blocked_by_second_rating =
     \<lparr>candidates =
        Some [\<lparr>content = None,
               safetyRatings = Some [\<lparr>blocked = None\<rparr>, \<lparr>blocked = Some True\<rparr>]\<rparr>]\<rparr>"

definition treatment :: "string \<Rightarrow> string \<Rightarrow> string \<Rightarrow> js_value list \<Rightarrow> js_value" where
  "treatment organic biological chemical prevention =
     JObj [(''organic'', JStr organic), (''biological'', JStr biological),
           (''chemical'', JStr chemical), (''prevention'', JArr prevention)]"

definition conformant_text :: string where
  \<open>conformant_text =
     ''{"organic":"Spray neem oil weekly.","biological":"Release ladybirds.","chemical":"Apply a sulfur fungicide.","prevention":["Space the plants.","Water at the base.","Prune crowded shoots.","Remove infected leaves.","Rotate crops."]}''\<close>

definition conformant_data :: js_value where
  "conformant_data =
     treatment ''Spray neem oil weekly.'' ''Release ladybirds.'' ''Apply a sulfur fungicide.''
       [JStr ''Space the plants.'', JStr ''Water at the base.'', JStr ''Prune crowded shoots.'',
        JStr ''Remove infected leaves.'', JStr ''Rotate crops.'']"

definition short_text :: string where
  \<open>short_text =
     ''{"organic":"Spray neem oil weekly.","biological":"Release ladybirds.","chemical":"Apply a sulfur fungicide.","prevention":["Rotate crops.","Rotate crops."]}''\<close>

definition short_data :: js_value where
  "short_data =
     treatment ''Spray neem oil weekly.'' ''Release ladybirds.'' ''Apply a sulfur fungicide.''
       [JStr ''Rotate crops.'', JStr ''Rotate crops.'']"

definition refusal_text :: string where
  "refusal_text = ''I cannot help with that.''"

section \<open>The parser and the string conversion\<close>

lemma JSON_parse_accepts:
  \<open>JSON_parse ''{}'' = Some (JObj [])\<close>
  \<open>JSON_parse '' [ ] '' = Some (JArr [])\<close>
  \<open>JSON_parse ''null'' = Some JNull\<close>
  \<open>JSON_parse ''[true,false]'' = Some (JArr [JBool True, JBool False])\<close>
  \<open>JSON_parse ''-12.5e1'' = Some (JNum (- 125))\<close>
  \<open>JSON_parse ''{"a":{"b":[1,{"c":"d"}]},"a":2,"e":[]}'' =
     Some (JObj [(''a'', JNum 2), (''e'', JArr [])])\<close>
  \<open>JSON_parse (''"a'' @ [CHR 0x5C] @ ''n'' @ [CHR 0x5C] @ ''u0041"'') =
     Some (JStr (''a'' @ [CHR 0x0A] @ ''A''))\<close>
  by code_simp+

lemma JSON_parse_rejects:
  \<open>JSON_parse [] = None\<close>
  \<open>JSON_parse ''[1,]'' = None\<close>
  \<open>JSON_parse ''{"a":1,}'' = None\<close>
  \<open>JSON_parse ''{a:1}'' = None\<close>
  \<open>JSON_parse ''[1 2]'' = None\<close>
  \<open>JSON_parse ''{} {}'' = None\<close>
  \<open>JSON_parse ''01'' = None\<close>
  \<open>JSON_parse ''1.'' = None\<close>
  \<open>JSON_parse ''.5'' = None\<close>
  \<open>JSON_parse ''+1'' = None\<close>
  \<open>JSON_parse ''nul'' = None\<close>
  \<open>JSON_parse ''"abc'' = None\<close>
  \<open>JSON_parse ''[1}'' = None\<close>
  \<open>JSON_parse ''undefined'' = None\<close>
  by code_simp+

lemma set_property_fresh: "k \<notin> fst ` set kvs \<Longrightarrow> set_property kvs k v = kvs @ [(k, v)]"
  by (induction kvs) auto

lemma set_property_known:
  "k \<in> fst ` set kvs \<Longrightarrow> map fst (set_property kvs k v) = map fst kvs"
  by (induction kvs) force+

lemma set_property_keys:
  "map fst (set_property kvs k v) =
     (if k \<in> fst ` set kvs then map fst kvs else map fst kvs @ [k])"
  by (simp add: set_property_known set_property_fresh)

lemma set_property_json:
  assumes "is_json (JObj kvs)" and "is_json v"
  shows "is_json (JObj (set_property kvs k v))"
proof -
  have "list_all (\<lambda>kv. is_json (snd kv)) (set_property kvs k v)"
    using assms by (induction kvs) auto
  moreover have "distinct (map fst (set_property kvs k v))"
    using assms by (simp add: set_property_keys)
  ultimately show ?thesis by simp
qed

lemma start_value_ok:
  "list_all frame_ok st \<Longrightarrow> start_value st t = Some s \<Longrightarrow> state_ok s"
  by (cases t) auto

lemma step_ok: "state_ok s \<Longrightarrow> step s t = Some s' \<Longrightarrow> state_ok s'"
proof (induction s t rule: step.induct)
  case (2 st t)
  then show ?case
    using start_value_ok [of "InArray [] # st" t s'] by (auto split: if_splits)
next
  case (8 v kvs k st t)
  then show ?case
    using set_property_json [of kvs v k] by (auto split: if_splits)
qed (auto split: if_splits token.splits dest: start_value_ok simp: list_all_append)

lemma run_ok: "state_ok s \<Longrightarrow> run s ts = Some v \<Longrightarrow> is_json v"
  by (induction s ts rule: run.induct) (auto split: option.splits dest: step_ok)

text \<open>\<^verbatim>\<open>JSON.parse\<close> returns a JSON value.\<close>

lemma JSON_parse_is_json: "JSON_parse t = Some v \<Longrightarrow> is_json v"
  by (auto simp: JSON_parse_def split: option.splits dest: run_ok [rotated])

lemma tokens_of_first: "is_json v \<Longrightarrow> \<exists>t ts. tokens_of v = t # ts \<and> t \<noteq> RBracket"
  by (cases v) auto

lemma run_array_open:
  assumes "is_json v"
  shows "run (Want_value_or_close st) (tokens_of v @ rest) =
         run (Want_value (InArray [] # st)) (tokens_of v @ rest)"
proof -
  from tokens_of_first [OF assms] obtain t ts where "tokens_of v = t # ts" "t \<noteq> RBracket"
    by blast
  then show ?thesis by simp
qed

lemma run_tokens_of:
  "is_json v \<Longrightarrow> run (Want_value st) (tokens_of v @ rest) = run (Have_value v st) rest"
  "list_all is_json xs \<Longrightarrow> xs \<noteq> [] \<Longrightarrow>
     run (Want_value (InArray acc # st)) (elements xs @ RBracket # rest) =
     run (Have_value (JArr (acc @ xs)) st) rest"
  "list_all (\<lambda>kv. is_json (snd kv)) kvs \<Longrightarrow> kvs \<noteq> [] \<Longrightarrow>
     distinct (map fst (seen @ kvs)) \<Longrightarrow>
     run (Want_key seen st) (members kvs @ RBrace # rest) =
     run (Have_value (JObj (seen @ kvs)) st) rest"
proof (induction v and xs and kvs arbitrary: st rest and acc st rest and seen st rest
    rule: tokens_of_elements_members.induct)
  case (6 xs)
  show ?case
  proof (cases xs)
    case Nil
    then show ?thesis by simp
  next
    case (Cons x xs')
    with 6 have "is_json x" by simp
    from run_array_open [OF this] Cons 6 show ?thesis
      by simp
  qed
next
  case (7 kvs)
  show ?case
  proof (cases kvs)
    case Nil
    then show ?thesis by simp
  next
    case (Cons kv kvs')
    obtain k v where "kv = (k, v)" by (cases kv)
    with Cons 7(1) [of "[]" st rest] 7(2) show ?thesis
      by simp
  qed
next
  case (9 x xs)
  then show ?case
    by (cases "xs = []") simp_all
next
  case (11 k v kvs)
  from 11(4,5) have fresh: "k \<notin> fst ` set seen"
    by auto
  from 11(3) have v: "is_json v" by simp
  show ?case
  proof (cases "kvs = []")
    case True
    with 11(1) [OF v] fresh show ?thesis
      by (simp add: set_property_fresh)
  next
    case False
    with 11(1) [OF v] 11(2) [OF False, of "seen @ [(k, v)]" st rest] 11(3,5) fresh show ?thesis
      by (simp add: set_property_fresh)
  qed
qed simp_all

text \<open>The automaton reads every JSON value back from its tokens.\<close>

lemma run_reads_back: "is_json v \<Longrightarrow> run (Want_value []) (tokens_of v) = Some v"
  using run_tokens_of(1) [of v "[]" "[]"] by simp

text \<open>The string conversion succeeds exactly on the convertible values.\<close>

lemma ToString_convertible:
  "(\<exists>s. ToString eng v = Inr s) = convertible v"
  "(\<exists>s. join eng xs = Inr s) = list_all convertible xs"
proof (induction eng v and eng xs rule: ToString_join.induct)
  case (9 eng x xs)
  then show ?case
    by (cases "ToString eng x"; cases "join eng xs") auto
qed auto

section \<open>The runs of the handler\<close>

lemma JSON_parse_Nil: "JSON_parse [] = None"
  by (simp add: JSON_parse_def)

lemma destructure_object: "destructure_disease (JObj kvs) = Inr (own_property kvs ''disease'')"
  by (simp add: destructure_disease_def)

lemma destructure_powdery_mildew:
  "destructure_disease powdery_mildew = Inr (JStr ''Powdery Mildew'')"
  by (simp add: powdery_mildew_def destructure_object own_property_def)

lemma first_text_text_response: "first_text (first_candidate (text_response t)) = Some t"
  by (simp add: first_text_def first_candidate_def text_response_def index0_def)

lemma parse_conformant_text: "JSON_parse conformant_text = Some conformant_data"
  by code_simp

lemma conformant_data_ok: "is_TreatmentResult conformant_data"
  by code_simp

lemma parse_short_text: "JSON_parse short_text = Some short_data"
  by code_simp

lemma short_data_not_result: "\<not> is_TreatmentResult short_data"
  by code_simp

lemma parse_refusal_text: "JSON_parse refusal_text = None"
  by code_simp

text \<open>A request that passes line 60 and whose prompt is built reaches the \<^verbatim>\<open>try\<close> block.\<close>

lemma handler_validated:
  assumes "destructure_disease req_body = Inr disease" and "\<not> falsy disease"
    and "ToString eng disease = Inr s"
  shows "handler eng generateContent req_body =
           (case try_block eng disease (generation_request (prompt s))
                   (generateContent (generation_request (prompt s))) of
              Inr out \<Rightarrow> out
            | Inl error \<Rightarrow> catch_block (generation_request (prompt s)) error)"
  using assms by (simp add: handler_def Let_def)

text \<open>Every run is one of seven: two throw past the handler, five send a response.\<close>

lemma handler_cases:
  obtains
    (throws_destructuring) e where
      "destructure_disease req_body = Inl e"
      "handler eng generateContent req_body =
         \<lparr>calls = [], console = [], sent = [], uncaught = Some e\<rparr>"
  | (invalid) disease where
      "destructure_disease req_body = Inr disease" "falsy disease"
      "handler eng generateContent req_body =
         \<lparr>calls = [], console = [],
          sent = [\<lparr>status = 400,
                   body = JObj [(''error'', JStr ''Disease name is required.'')]\<rparr>],
          uncaught = None\<rparr>"
  | (throws_template) disease e where
      "destructure_disease req_body = Inr disease" "\<not> falsy disease"
      "ToString eng disease = Inl e"
      "handler eng generateContent req_body =
         \<lparr>calls = [], console = [], sent = [], uncaught = Some e\<rparr>"
  | (rejected) disease s e where
      "destructure_disease req_body = Inr disease" "\<not> falsy disease"
      "ToString eng disease = Inr s"
      "generateContent (generation_request (prompt s)) = Rejected e"
      "handler eng generateContent req_body = catch_block (generation_request (prompt s)) e"
  | (without_text) disease s response where
      "destructure_disease req_body = Inr disease" "\<not> falsy disease"
      "ToString eng disease = Inr s"
      "generateContent (generation_request (prompt s)) = Resolved response"
      "first_text (first_candidate response) = None \<or>
       first_text (first_candidate response) = Some []"
      "handler eng generateContent req_body =
         no_text (generation_request (prompt s)) (first_candidate response)"
  | (unparsable) disease s response t where
      "destructure_disease req_body = Inr disease" "\<not> falsy disease"
      "ToString eng disease = Inr s"
      "generateContent (generation_request (prompt s)) = Resolved response"
      "first_text (first_candidate response) = Some t" "t \<noteq> []" "JSON_parse t = None"
      "handler eng generateContent req_body =
         catch_block (generation_request (prompt s)) (SyntaxError (SyntaxErrorMessage eng t))"
  | (parsed) disease s response t data where
      "destructure_disease req_body = Inr disease" "\<not> falsy disease"
      "ToString eng disease = Inr s"
      "generateContent (generation_request (prompt s)) = Resolved response"
      "first_text (first_candidate response) = Some t" "t \<noteq> []" "JSON_parse t = Some data"
      "handler eng generateContent req_body =
         success (generation_request (prompt s)) disease s data"
proof (cases "destructure_disease req_body")
  case (Inl e)
  then show ?thesis
    using throws_destructuring by (simp add: handler_def)
next
  case (Inr disease)
  note d = this
  show ?thesis
  proof (cases "falsy disease")
    case True
    with d show ?thesis
      using invalid by (simp add: handler_def)
  next
    case False
    note truthy = this
    show ?thesis
    proof (cases "ToString eng disease")
      case (Inl e)
      with d truthy show ?thesis
        using throws_template by (simp add: handler_def)
    next
      case (Inr s)
      note s = this
      note h = handler_validated [OF d truthy s, of generateContent]
      show ?thesis
      proof (cases "generateContent (generation_request (prompt s))")
        case (Rejected e)
        with h have "handler eng generateContent req_body =
            catch_block (generation_request (prompt s)) e"
          by (simp add: try_block_def)
        with d truthy s Rejected show ?thesis
          using rejected by blast
      next
        case (Resolved response)
        note r = this
        show ?thesis
        proof (cases "first_text (first_candidate response)")
          case None
          with h r have "handler eng generateContent req_body =
              no_text (generation_request (prompt s)) (first_candidate response)"
            by (simp add: try_block_def Let_def)
          with d truthy s r None show ?thesis
            using without_text by blast
        next
          case (Some t)
          note t = this
          show ?thesis
          proof (cases "t = []")
            case True
            with h r t have "handler eng generateContent req_body =
                no_text (generation_request (prompt s)) (first_candidate response)"
              by (simp add: try_block_def Let_def)
            with d truthy s r t True show ?thesis
              using without_text by blast
          next
            case False
            note nonempty = this
            show ?thesis
            proof (cases "JSON_parse t")
              case None
              with h r t nonempty have "handler eng generateContent req_body =
                  catch_block (generation_request (prompt s))
                    (SyntaxError (SyntaxErrorMessage eng t))"
                by (simp add: try_block_def Let_def)
              with d truthy s r t nonempty None show ?thesis
                using unparsable by blast
            next
              case (Some data)
              with h r t nonempty s have "handler eng generateContent req_body =
                  success (generation_request (prompt s)) disease s data"
                by (simp add: try_block_def Let_def)
              with d truthy s r t nonempty Some show ?thesis
                using parsed by blast
            qed
          qed
        qed
      qed
    qed
  qed
qed

lemma calls_validated:
  assumes "destructure_disease req_body = Inr disease" and "\<not> falsy disease"
    and "ToString eng disease = Inr s"
  shows "calls (handler eng generateContent req_body) = [generation_request (prompt s)]"
  using assms
  by (cases eng generateContent req_body rule: handler_cases)
    (auto simp: catch_block_def no_text_def success_def Let_def)

text \<open>
  What line 83 does: the detail names the safety settings exactly when the first
  safety rating of the first candidate is flagged as blocking.
\<close>

lemma no_text_details:
  assumes "destructure_disease req_body = Inr disease" and "\<not> falsy disease"
    and "ToString eng disease = Inr s"
    and "generateContent (generation_request (prompt s)) = Resolved response"
    and "first_text (first_candidate response) = None \<or>
         first_text (first_candidate response) = Some []"
  shows "sent (handler eng generateContent req_body) =
           [\<lparr>status = 500,
             body = JObj [(''error'', JStr ''Failed to generate treatment data.''),
                          (''details'',
                             JStr (if first_rating_blocked (first_candidate response)
                                   then ''Response blocked by safety settings.''
                                   else ''Empty response or no text part found.''))]\<rparr>]"
  using assms by (auto simp: handler_validated try_block_def no_text_def Let_def)

text \<open>
  A run throws past the handler exactly when the destructuring of line 58 or the
  template literal of lines 64-66 throws; every other run sends one response.
\<close>

lemma uncaught_iff:
  "(uncaught (handler eng generateContent req_body) \<noteq> None) =
     (case destructure_disease req_body of
        Inl e \<Rightarrow> True
      | Inr disease \<Rightarrow> \<not> falsy disease \<and> \<not> convertible disease)"
proof (cases eng generateContent req_body rule: handler_cases)
  case (throws_template disease e)
  then have "\<not> convertible disease"
    using ToString_convertible(1) [of eng disease] by simp
  with throws_template show ?thesis by simp
qed (use ToString_convertible(1) [of eng] in
    \<open>auto simp: catch_block_def no_text_def success_def Let_def\<close>)

lemma one_response_unless_thrown:
  assumes "uncaught (handler eng generateContent req_body) = None"
  shows "\<exists>r. sent (handler eng generateContent req_body) = [r] \<and>
           (status r = 200 \<or> status r = 400 \<or> status r = 500) \<and>
           (status r = 200 \<or> is_string (field (body r) ''error''))"
  using assms
  by (cases eng generateContent req_body rule: handler_cases)
    (auto simp: catch_block_def no_text_def success_def Let_def field_def own_property_def
      is_string_def)

text \<open>A request body that is a JSON value gets a response body that is one.\<close>

lemma response_body_is_json:
  assumes "is_json req_body" and "r \<in> set (sent (handler eng generateContent req_body))"
  shows "is_json (body r)"
proof (cases eng generateContent req_body rule: handler_cases)
  case (parsed disease s response t data)
  from parsed(1,2) assms(1) have "is_json disease"
    by (cases req_body)
      (auto simp: destructure_disease_def own_property_def list_all_iff
        split: option.splits dest!: map_of_SomeD)
  moreover from parsed(7) have "is_json data"
    by (rule JSON_parse_is_json)
  ultimately show ?thesis
    using parsed(8) assms(2) by (simp add: success_def)
qed (use assms(2) in \<open>auto simp: catch_block_def no_text_def Let_def\<close>)

text \<open>
  The schema accepts the four keys with any array of strings under \<^verbatim>\<open>prevention\<close>,
  whatever its length and whether or not its entries repeat.
\<close>

lemma conforms_treatment:
  "conforms treatmentSchema (treatment organic biological chemical prevention) =
     list_all is_string prevention"
proof -
  have "conforms (Schema STRING None [] None [] None None) x = is_string x" for x
    by (cases x) (simp_all add: is_string_def)
  then have "list_all (conforms (Schema STRING None [] None [] None None)) prevention =
      list_all is_string prevention"
    by (simp cong: list_all_cong)
  then show ?thesis
    by (simp add: treatmentSchema_def treatment_def has_own_property_def within_bounds_def)
qed

section \<open>The claims\<close>

subsection \<open>C1: a missing or empty disease\<close>




subsection \<open>C2: a conformant payload\<close>

text \<open>
  Claim C2. When \<^verbatim>\<open>disease\<close> is a non-empty string and the capability resolves to a
  response whose first candidate's first part carries a text that parses to a
  TreatmentResult, the handler sends status 200 with the body \<^verbatim>\<open>{ disease, data }\<close>,
  where \<^verbatim>\<open>data\<close> is the parsed value: it has the four keys, and its \<^verbatim>\<open>prevention\<close>
  holds exactly five strings.
\<close>

theorem conformant_payload:
  assumes "req_body = JObj kvs" and "map_of kvs ''disease'' = Some (JStr d)" and "d \<noteq> []"
    and "generateContent (generation_request (prompt d)) = Resolved response"
    and "first_text (first_candidate response) = Some t"
    and "JSON_parse t = Some data"
    and "is_TreatmentResult data"
  shows \<open>handler eng generateContent req_body =
           \<lparr>calls = [generation_request (prompt d)],
            console = [console_log [''Successfully generated structured data for "'' @ d @ ''"'']],
            sent = [\<lparr>status = 200, body = JObj [(''disease'', JStr d), (''data'', data)]\<rparr>],
            uncaught = None\<rparr> \<and>
         is_TreatmentResult (field (JObj [(''disease'', JStr d), (''data'', data)]) ''data'')\<close>
proof -
  have "t \<noteq> []"
    using assms(6) JSON_parse_Nil by auto
  moreover have "destructure_disease req_body = Inr (JStr d)"
    using assms(1,2) by (simp add: destructure_object own_property_def)
  ultimately show ?thesis
    using assms(3-7)
    by (simp add: handler_validated [where disease = "JStr d" and s = d] try_block_def
        success_def Let_def field_def own_property_def)
qed

theorem conformant_payload_witness:
  \<open>map_of [(''disease'', JStr ''Powdery Mildew'')] ''disease'' = Some (JStr ''Powdery Mildew'') \<and>
   first_text (first_candidate (text_response conformant_text)) = Some conformant_text \<and>
   JSON_parse conformant_text = Some conformant_data \<and>
   is_TreatmentResult conformant_data \<and>
   handler example_engine (\<lambda>request. Resolved (text_response conformant_text)) powdery_mildew =
     \<lparr>calls = [generation_request (prompt ''Powdery Mildew'')],
      console = [console_log [''Successfully generated structured data for "Powdery Mildew"'']],
      sent = [\<lparr>status = 200,
               body = JObj [(''disease'', JStr ''Powdery Mildew''), (''data'', conformant_data)]\<rparr>],
      uncaught = None\<rparr>\<close>
  using conformant_payload [of powdery_mildew "[(''disease'', JStr ''Powdery Mildew'')]"
      "''Powdery Mildew''" "\<lambda>request. Resolved (text_response conformant_text)"
      "text_response conformant_text" conformant_text conformant_data example_engine]
    parse_conformant_text conformant_data_ok first_text_text_response
  by (simp add: powdery_mildew_def)

subsection \<open>C3: a response without text\<close>

text \<open>
  Claim C3 says that a response without text gives status 500 whose \<^verbatim>\<open>details\<close> is
  \<^verbatim>\<open>Response blocked by safety settings.\<close> when safety-block metadata is present on the
  candidate. Line 83 reads only \<^verbatim>\<open>safetyRatings?.[0]\<close>. On a candidate without text
  whose second safety rating is the one flagged \<^verbatim>\<open>blocked\<close>, the metadata is present and
  the handler answers \<^verbatim>\<open>Empty response or no text part found.\<close>
\<close>

theorem blocked_rating_not_first:
  "safety_block_present (first_candidate blocked_by_second_rating) \<and>
   first_text (first_candidate blocked_by_second_rating) = None \<and>
   handler eng (\<lambda>request. Resolved blocked_by_second_rating) powdery_mildew =
     \<lparr>calls = [generation_request (prompt ''Powdery Mildew'')],
      console = [console_error [''Gemini API Error:'', ''Empty response or no text part found.'']],
      sent = [\<lparr>status = 500,
               body = JObj [(''error'', JStr ''Failed to generate treatment data.''),
                            (''details'', JStr ''Empty response or no text part found.'')]\<rparr>],
      uncaught = None\<rparr>"
  by (simp add: handler_validated [OF destructure_powdery_mildew] try_block_def Let_def
      no_text_def first_rating_blocked_def first_text_def first_candidate_def index0_def
      blocked_by_second_rating_def safety_block_present_def)

subsection \<open>C4: a rejected call\<close>

text \<open>
  Claim C4. When the call that the handler makes to the capability rejects with an
  error \<open>e\<close>, the handler sends status 500 with a JSON body whose \<^verbatim>\<open>details\<close> is the
  message of \<open>e\<close>.
\<close>

theorem rejected_call:
  assumes "calls (handler eng generateContent req_body) = [request]"
    and "generateContent request = Rejected e"
  shows "handler eng generateContent req_body =
           \<lparr>calls = [request],
            console = [console_error [''Gemini API Internal Error:'', message e]],
            sent = [\<lparr>status = 500,
                     body = JObj [(''error'', JStr ''Failed to process request due to an internal API error.''),
                                  (''details'', JStr (message e))]\<rparr>],
            uncaught = None\<rparr>"
  using assms
  by (cases eng generateContent req_body rule: handler_cases)
    (auto simp: catch_block_def no_text_def success_def Let_def)

theorem rejected_call_witness:
  "calls (handler example_engine failing_network powdery_mildew) =
     [generation_request (prompt ''Powdery Mildew'')] \<and>
   failing_network (generation_request (prompt ''Powdery Mildew'')) =
     Rejected \<lparr>name = ''TypeError'', message = ''fetch failed''\<rparr> \<and>
   sent (handler example_engine failing_network powdery_mildew) =
     [\<lparr>status = 500,
       body = JObj [(''error'', JStr ''Failed to process request due to an internal API error.''),
                    (''details'', JStr ''fetch failed'')]\<rparr>]"
proof -
  have c: "calls (handler example_engine failing_network powdery_mildew) =
      [generation_request (prompt ''Powdery Mildew'')]"
    by (simp add: calls_validated [OF destructure_powdery_mildew])
  have e: "failing_network (generation_request (prompt ''Powdery Mildew'')) =
      Rejected \<lparr>name = ''TypeError'', message = ''fetch failed''\<rparr>"
    by (simp add: failing_network_def)
  from rejected_call [OF c e] c e show ?thesis
    by simp
qed

subsection \<open>C5: a text that is not JSON\<close>

text \<open>
  Claim C5. When the call that the handler makes resolves to a response whose text is
  not valid JSON, the handler sends status 500 with a JSON body whose \<^verbatim>\<open>error\<close> reports
  a failure to process the request; \<^verbatim>\<open>details\<close> is the message of the \<^verbatim>\<open>SyntaxError\<close>.
  The empty text, which is not JSON either, is answered as a response without text.
\<close>

theorem invalid_json:
  assumes "calls (handler eng generateContent req_body) = [request]"
    and "generateContent request = Resolved response"
    and "first_text (first_candidate response) = Some t"
    and "JSON_parse t = None"
  shows "sent (handler eng generateContent req_body) =
           [\<lparr>status = 500,
             body = JObj [(''error'',
                             JStr (if t = [] then ''Failed to generate treatment data.''
                                   else ''Failed to process request due to an internal API error.'')),
                          (''details'',
                             JStr (if t = [] then
                                     (if first_rating_blocked (first_candidate response)
                                      then ''Response blocked by safety settings.''
                                      else ''Empty response or no text part found.'')
                                   else SyntaxErrorMessage eng t))]\<rparr>]"
  using assms
  by (cases eng generateContent req_body rule: handler_cases)
    (auto simp: catch_block_def no_text_def success_def SyntaxError_def Let_def)

theorem invalid_json_witness:
  "calls (handler example_engine (\<lambda>request. Resolved (text_response refusal_text))
            powdery_mildew) =
     [generation_request (prompt ''Powdery Mildew'')] \<and>
   first_text (first_candidate (text_response refusal_text)) = Some refusal_text \<and>
   JSON_parse refusal_text = None \<and>
   sent (handler example_engine (\<lambda>request. Resolved (text_response refusal_text)) powdery_mildew) =
     [\<lparr>status = 500,
       body = JObj [(''error'', JStr ''Failed to process request due to an internal API error.''),
                    (''details'', JStr ''Unexpected token'')]\<rparr>]"
proof -
  let ?g = "\<lambda>request. Resolved (text_response refusal_text)"
  have c: "calls (handler example_engine ?g powdery_mildew) =
      [generation_request (prompt ''Powdery Mildew'')]"
    by (simp add: calls_validated [OF destructure_powdery_mildew])
  from invalid_json [OF c refl first_text_text_response parse_refusal_text]
    c first_text_text_response [of refusal_text] parse_refusal_text
  show ?thesis
    by (simp add: refusal_text_def example_engine_def)
qed

subsection \<open>C6: what a 200 response carries\<close>

text \<open>
  Claim C6 says that the \<^verbatim>\<open>data\<close> of every 200 response is a TreatmentResult and that no
  partial or non-conformant result is returned. The handler does not inspect the parsed
  value: a text with the four keys and two \<^verbatim>\<open>prevention\<close> entries, which the schema of
  lines 29-54 accepts, is answered with status 200 and that value as \<^verbatim>\<open>data\<close>.
\<close>

theorem unchecked_data_counterexample:
  "conforms treatmentSchema short_data \<and>
   sent (handler example_engine (\<lambda>request. Resolved (text_response short_text)) powdery_mildew) =
     [\<lparr>status = 200,
       body = JObj [(''disease'', JStr ''Powdery Mildew''), (''data'', short_data)]\<rparr>] \<and>
   \<not> is_TreatmentResult short_data"
  using parse_short_text short_data_not_result
  by (simp add: handler_validated [OF destructure_powdery_mildew] try_block_def success_def
      Let_def first_text_text_response short_text_def short_data_def conforms_treatment
      is_string_def)

text \<open>
  Claim C6, amended. The body of every 200 response is \<^verbatim>\<open>{ disease, data }\<close> where
  \<^verbatim>\<open>data\<close> is the value that \<^verbatim>\<open>JSON.parse\<close> returned for the non-empty text of the
  first part of the first candidate of a resolved call; the handler returns it as
  parsed, without checking it against the schema.
\<close>

theorem data_is_the_parsed_text:
  assumes "r \<in> set (sent (handler eng generateContent req_body))" and "status r = 200"
  shows "\<exists>disease s response t data.
           destructure_disease req_body = Inr disease \<and> \<not> falsy disease \<and>
           ToString eng disease = Inr s \<and>
           generateContent (generation_request (prompt s)) = Resolved response \<and>
           first_text (first_candidate response) = Some t \<and> t \<noteq> [] \<and>
           JSON_parse t = Some data \<and>
           body r = JObj [(''disease'', disease), (''data'', data)] \<and>
           field (body r) ''data'' = data"
proof (cases eng generateContent req_body rule: handler_cases)
  case (parsed disease s response t data)
  with assms have "body r = JObj [(''disease'', disease), (''data'', data)]"
    by (simp add: success_def)
  with parsed show ?thesis
    by (simp add: field_def own_property_def)
qed (use assms in \<open>auto simp: catch_block_def no_text_def Let_def\<close>)

theorem data_is_the_parsed_text_witness:
  "\<lparr>status = 200, body = JObj [(''disease'', JStr ''Powdery Mildew''), (''data'', short_data)]\<rparr>
     \<in> set (sent (handler example_engine (\<lambda>request. Resolved (text_response short_text))
                     powdery_mildew)) \<and>
   (\<exists>t data. first_text (first_candidate (text_response short_text)) = Some t \<and>
      JSON_parse t = Some data \<and>
      field (JObj [(''disease'', JStr ''Powdery Mildew''), (''data'', short_data)]) ''data'' = data)"
proof -
  let ?g = "\<lambda>request. Resolved (text_response short_text)"
  let ?r = "\<lparr>status = 200,
             body = JObj [(''disease'', JStr ''Powdery Mildew''), (''data'', short_data)]\<rparr>"
  have r: "?r \<in> set (sent (handler example_engine ?g powdery_mildew))"
    using parse_short_text
    by (simp add: handler_validated [OF destructure_powdery_mildew] try_block_def success_def
        Let_def first_text_text_response short_text_def)
  from data_is_the_parsed_text [OF r]
  obtain disease s response t data where
    "?g (generation_request (prompt s)) = Resolved response"
    "first_text (first_candidate response) = Some t"
    "JSON_parse t = Some data"
    "field (body ?r) ''data'' = data"
    by auto
  with r show ?thesis
    by auto
qed

subsection \<open>C7: the generation request\<close>

text \<open>
  Claim C7 says that the response schema constrains the \<^verbatim>\<open>prevention\<close> array to five
  distinct string items. The schema of lines 29-54 types the items as strings and
  mentions five distinct measures only in the description: a value with two equal
  \<^verbatim>\<open>prevention\<close> entries satisfies it.
\<close>

theorem schema_counterexample:
  "conforms treatmentSchema short_data \<and> \<not> five_distinct_strings (field short_data ''prevention'')"
  by (simp add: short_data_def conforms_treatment is_string_def)
    (simp add: treatment_def field_def own_property_def five_distinct_strings_def)

text \<open>
  Claim C7, amended. For every request that passes line 60 and whose \<^verbatim>\<open>disease\<close> has a
  string form, the handler issues exactly one generation request: model
  \<^verbatim>\<open>gemini-2.5-flash\<close>, temperature 0.3, response mime type \<^verbatim>\<open>application/json\<close> and the
  schema of lines 29-54. That schema is an object schema that requires the four keys,
  types \<^verbatim>\<open>organic\<close>, \<^verbatim>\<open>biological\<close> and \<^verbatim>\<open>chemical\<close> as strings and \<^verbatim>\<open>prevention\<close> as
  an array of strings with no bound on its length; it accepts the four keys with any
  array of strings.
\<close>

theorem generation_request_issued:
  assumes "destructure_disease req_body = Inr disease" and "\<not> falsy disease"
    and "ToString eng disease = Inr s"
  shows "calls (handler eng generateContent req_body) =
           [\<lparr>model = ''gemini-2.5-flash'',
             contents = prompt s,
             config = \<lparr>temperature = 3 / 10,
                       responseMimeType = ''application/json'',
                       responseSchema = treatmentSchema\<rparr>\<rparr>] \<and>
         schema_type treatmentSchema = OBJECT \<and>
         required treatmentSchema = [''organic'', ''biological'', ''chemical'', ''prevention''] \<and>
         map (\<lambda>p. (fst p, schema_type (snd p))) (properties treatmentSchema) =
           [(''organic'', STRING), (''biological'', STRING), (''chemical'', STRING),
            (''prevention'', ARRAY)] \<and>
         map_of (properties treatmentSchema) ''prevention'' =
           Some (Schema ARRAY (Some ''A list of five distinct prevention measures.'') []
                   (Some (Schema STRING None [] None [] None None)) [] None None) \<and>
         (\<forall>organic biological chemical prevention.
            conforms treatmentSchema (treatment organic biological chemical prevention) =
              list_all is_string prevention)"
  using calls_validated [OF assms]
  by (simp add: generation_request_def conforms_treatment) (simp add: treatmentSchema_def)

theorem generation_request_issued_witness:
  "destructure_disease powdery_mildew = Inr (JStr ''Powdery Mildew'') \<and>
   \<not> falsy (JStr ''Powdery Mildew'') \<and>
   ToString example_engine (JStr ''Powdery Mildew'') = Inr ''Powdery Mildew'' \<and>
   calls (handler example_engine failing_network powdery_mildew) =
     [\<lparr>model = ''gemini-2.5-flash'',
       contents = prompt ''Powdery Mildew'',
       config = \<lparr>temperature = 3 / 10,
                 responseMimeType = ''application/json'',
                 responseSchema = treatmentSchema\<rparr>\<rparr>]"
  using generation_request_issued [of powdery_mildew "JStr ''Powdery Mildew''" example_engine
      "''Powdery Mildew''" failing_network]
  by (simp add: destructure_powdery_mildew)

subsection \<open>C8: errors at the handler's boundary\<close>

text \<open>
  Claim C8 says that the handler never throws past its boundary and that every run ends
  with one JSON response. The template literal of lines 64-66 stands before \<^verbatim>\<open>try\<close>.
  For the body \<^verbatim>\<open>{ "disease": { "toString": 1 } }\<close> the value of \<^verbatim>\<open>disease\<close> is truthy
  and has no string form: the literal throws a \<^verbatim>\<open>TypeError\<close>, nothing catches it, and
  the handler sends no response.
\<close>

theorem template_literal_throws:
  "handler eng generateContent (JObj [(''disease'', JObj [(''toString'', JNum 1)])]) =
     \<lparr>calls = [], console = [], sent = [],
      uncaught = Some (TypeError ''Cannot convert object to primitive value'')\<rparr>"
  by (simp add: handler_def destructure_object own_property_def has_own_property_def)

subsection \<open>C9: the console\<close>

text \<open>
  Claim C9 says that the handler writes a log line on every failure outcome. The
  400 response of line 61 is sent without one.
\<close>

theorem silent_400_counterexample:
  "sent (handler example_engine failing_network (JObj [])) =
     [\<lparr>status = 400, body = JObj [(''error'', JStr ''Disease name is required.'')]\<rparr>] \<and>
   console (handler example_engine failing_network (JObj [])) = []"
  by (simp add: handler_def destructure_object own_property_def)

text \<open>
  Claim C9, amended. A run that sends a response sends exactly one, makes at most one
  call to the capability, throws nothing, and writes to the console as follows: with a
  200 response one \<^verbatim>\<open>console.log\<close> line that quotes the string form of \<^verbatim>\<open>disease\<close>; with
  a 500 response one \<^verbatim>\<open>console.error\<close> line that ends with the \<^verbatim>\<open>details\<close> of the
  response; with the 400 response nothing.
\<close>

theorem console_lines:
  assumes "r \<in> set (sent (handler eng generateContent req_body))"
  shows \<open>(status r = 200 \<longrightarrow>
            (\<exists>disease s. destructure_disease req_body = Inr disease \<and>
               ToString eng disease = Inr s \<and>
               console (handler eng generateContent req_body) =
                 [console_log [''Successfully generated structured data for "'' @ s @ ''"'']])) \<and>
         (status r = 500 \<longrightarrow>
            (\<exists>label details.
               (label = ''Gemini API Error:'' \<or> label = ''Gemini API Internal Error:'') \<and>
               field (body r) ''details'' = JStr details \<and>
               console (handler eng generateContent req_body) =
                 [console_error [label, details]])) \<and>
         (status r = 400 \<longrightarrow> console (handler eng generateContent req_body) = []) \<and>
         sent (handler eng generateContent req_body) = [r] \<and>
         length (calls (handler eng generateContent req_body)) \<le> 1 \<and>
         uncaught (handler eng generateContent req_body) = None\<close>
  using assms
  by (cases eng generateContent req_body rule: handler_cases)
    (auto simp: catch_block_def no_text_def success_def Let_def field_def own_property_def)

theorem console_lines_witness:
  \<open>\<lparr>status = 500,
     body = JObj [(''error'', JStr ''Failed to process request due to an internal API error.''),
                  (''details'', JStr ''fetch failed'')]\<rparr>
     \<in> set (sent (handler example_engine failing_network powdery_mildew)) \<and>
   console (handler example_engine failing_network powdery_mildew) =
     [console_error [''Gemini API Internal Error:'', ''fetch failed'']] \<and>
   length (calls (handler example_engine failing_network powdery_mildew)) \<le> 1\<close>
proof -
  let ?r = "\<lparr>status = 500,
     body = JObj [(''error'', JStr ''Failed to process request due to an internal API error.''),
                  (''details'', JStr ''fetch failed'')]\<rparr>"
  have out: "handler example_engine failing_network powdery_mildew =
      catch_block (generation_request (prompt ''Powdery Mildew''))
        \<lparr>name = ''TypeError'', message = ''fetch failed''\<rparr>"
    by (simp add: handler_validated [OF destructure_powdery_mildew] try_block_def
        failing_network_def)
  then have r: "?r \<in> set (sent (handler example_engine failing_network powdery_mildew))"
    by (simp add: catch_block_def)
  from console_lines [OF r] r out show ?thesis
    by (simp add: catch_block_def)
qed

subsection \<open>C10: the check of line 60\<close>

text \<open>
  Claim C10 says that every truthy value that is not a string passes the check and is
  embedded into the prompt sent to the capability. The object \<^verbatim>\<open>{ "toString": 1 }\<close> is
  truthy and passes the check, and no prompt is sent: the run makes no call and sends no
  response.
\<close>

theorem not_embedded_counterexample:
  "destructure_disease toString_object = Inr (JObj [(''toString'', JNum 1)]) \<and>
   \<not> falsy (JObj [(''toString'', JNum 1)]) \<and>
   sent (handler example_engine failing_network toString_object) = [] \<and>
   calls (handler example_engine failing_network toString_object) = []"
  by (simp add: toString_object_def handler_def destructure_object own_property_def
      has_own_property_def)

text \<open>
  Claim C10, amended. The handler answers 400 exactly when \<^verbatim>\<open>disease\<close> is falsy, and then
  makes no call; \<^verbatim>\<open>undefined\<close> (an absent field), \<^verbatim>\<open>null\<close>, \<^verbatim>\<open>false\<close>, 0 and the empty
  string are falsy. Every other value passes the check, a number, an array or an object
  as well as a string. When such a value is convertible (every number is, and every
  object without an own \<^verbatim>\<open>toString\<close>), it has a string form \<open>s\<close>, and the prompt of the
  one call the handler makes is the template of lines 64-66 with \<open>s\<close> in it.
\<close>

theorem truthiness_check:
  assumes "destructure_disease req_body = Inr disease"
  shows "((\<exists>r. r \<in> set (sent (handler eng generateContent req_body)) \<and> status r = 400) =
            falsy disease) \<and>
         (falsy disease \<longrightarrow> calls (handler eng generateContent req_body) = []) \<and>
         (\<not> falsy disease \<and> convertible disease \<longrightarrow>
            (\<exists>s. ToString eng disease = Inr s \<and>
               map contents (calls (handler eng generateContent req_body)) = [prompt s])) \<and>
         falsy JUndefined \<and> falsy JNull \<and> falsy (JBool False) \<and> falsy (JNum 0) \<and>
         falsy (JStr []) \<and>
         (\<forall>v. convertible (JNum v)) \<and>
         (\<forall>kvs. convertible (JObj kvs) = (\<not> has_own_property kvs ''toString''))"
proof -
  have "(\<exists>r. r \<in> set (sent (handler eng generateContent req_body)) \<and> status r = 400) =
      falsy disease"
    using assms
    by (cases eng generateContent req_body rule: handler_cases)
      (auto simp: catch_block_def no_text_def success_def Let_def)
  moreover have "falsy disease \<longrightarrow> calls (handler eng generateContent req_body) = []"
    using assms by (simp add: handler_def)
  moreover have "\<not> falsy disease \<and> convertible disease \<longrightarrow>
      (\<exists>s. ToString eng disease = Inr s \<and>
         map contents (calls (handler eng generateContent req_body)) = [prompt s])"
  proof
    assume a: "\<not> falsy disease \<and> convertible disease"
    then obtain s where s: "ToString eng disease = Inr s"
      using ToString_convertible(1) [of eng disease] by blast
    with a calls_validated [OF assms, of eng s generateContent]
    show "\<exists>s. ToString eng disease = Inr s \<and>
        map contents (calls (handler eng generateContent req_body)) = [prompt s]"
      by (simp add: generation_request_def)
  qed
  ultimately show ?thesis
    by (simp add: number_is_zero_def)
qed

theorem truthiness_check_witness:
  "destructure_disease (JObj [(''disease'', JNum 42)]) = Inr (JNum 42) \<and>
   \<not> falsy (JNum 42) \<and> convertible (JNum 42) \<and>
   ToString example_engine (JNum 42) = Inr ''42'' \<and>
   map contents (calls (handler example_engine failing_network (JObj [(''disease'', JNum 42)]))) =
     [prompt ''42'']"
proof -
  have d: "destructure_disease (JObj [(''disease'', JNum 42)]) = Inr (JNum 42)"
    by (simp add: destructure_object own_property_def)
  have t: "\<not> falsy (JNum 42)"
    by (simp add: number_is_zero_def)
  have s: "ToString example_engine (JNum 42) = Inr ''42''"
    by code_simp
  from truthiness_check [OF d, of example_engine failing_network] d t s show ?thesis
    by simp
qed

end
